theory Spec2Isabelle
  imports Main "HOL-Library.Sublist"
begin

section \<open>Python values used by the client\<close>

text \<open>
  A \<^verbatim>\<open>tzinfo\<close> object is represented by the offset from UTC that it reports for the
  datetime it is attached to, in microseconds (Python keeps offsets as \<^verbatim>\<open>timedelta\<close>
  values strictly between minus and plus one day).
\<close>

datatype timezone = Timezone (utcoffset: int)

datatype datetime =
  Datetime (year: nat) (month: nat) (day: nat) (hour: nat) (minute: nat) (second: nat)
    (microsecond: nat) (tzinfo: "timezone option")

text \<open>
  The values a caller can hand to the client where a timestamp is expected, and the
  objects whose truth value the client tests. \<open>PyBoundMethod\<close> is a method bound to
  an instance, \<open>PyObject\<close> any other object that defines neither \<^verbatim>\<open>__bool__\<close> nor
  \<^verbatim>\<open>__len__\<close>.
\<close>

datatype pyobj =
    PyNone
  | PyBool bool
  | PyInt int
  | PyStr string
  | PyDatetime datetime
  | PyBoundMethod string
  | PyObject string

fun truthy :: "pyobj \<Rightarrow> bool" where
  "truthy PyNone = False"
| "truthy (PyBool b) = b"
| "truthy (PyInt i) = (i \<noteq> 0)"
| "truthy (PyStr s) = (s \<noteq> [])"
| "truthy (PyDatetime d) = True"
| "truthy (PyBoundMethod m) = True"
| "truthy (PyObject c) = True"

text \<open>
  Every \<^verbatim>\<open>raise\<close> of the source is a plain \<^verbatim>\<open>Exception\<close> with a message; one
  constructor stands for each raise site. \<open>ApiException\<close> is the store client's
  exception with its \<^verbatim>\<open>status\<close> attribute, \<open>TypeError\<close> and \<open>AttributeError\<close> are
  raised by the interpreter, \<open>OtherError\<close> is any other exception of a delegate.
\<close>

datatype error =
    MissingHost
  | MissingPort
  | MissingToken
  | NotReachable
  | NotReachableOrUnhealthy
  | NotDatetime
  | NoTimezoneInfo
  | ApiException "int option"
  | TypeError
  | AttributeError
  | OtherError string

definition and_then :: "error + 'a \<Rightarrow> ('a \<Rightarrow> error + 'b) \<Rightarrow> error + 'b" where
  "and_then m f = (case m of Inl err \<Rightarrow> Inl err | Inr x \<Rightarrow> f x)"

section \<open>Text\<close>

definition dquote :: string where
  "dquote = [CHR 0x22]"

definition newline :: string where
  "newline = [CHR 0x0A]"

definition indent :: "nat \<Rightarrow> string" where
  "indent n = replicate n (CHR '' '')"

definition digit :: "nat \<Rightarrow> char" where
  "digit n = ''0123456789'' ! (n mod 10)"

fun dec :: "nat \<Rightarrow> string" where
  "dec n = (if n < 10 then [digit n] else dec (n div 10) @ [digit (n mod 10)])"

definition str_int :: "int \<Rightarrow> string" where
  "str_int i = (if i < 0 then CHR ''-'' # dec (nat (- i)) else dec (nat i))"

text \<open>\<^verbatim>\<open>"%0wd" % n\<close> for a natural number.\<close>

definition zero_padded :: "nat \<Rightarrow> nat \<Rightarrow> string" where
  "zero_padded w n = replicate (w - length (dec n)) (CHR ''0'') @ dec n"

text \<open>Number of positions of \<open>s\<close> at which the text \<open>p\<close> starts.\<close>

fun occurrences :: "string \<Rightarrow> string \<Rightarrow> nat" where
  "occurrences p [] = 0"
| "occurrences p (c # cs) = (if prefix p (c # cs) then 1 else 0) + occurrences p cs"

section \<open>Formatting of timestamps\<close>

definition format_offset :: "int \<Rightarrow> string" where
  "format_offset off =
    (let sign = (if off < 0 then CHR ''-'' else CHR ''+'');
         a = nat \<bar>off\<bar>;
         hh = a div 3600000000;
         mm = (a mod 3600000000) div 60000000;
         ss = a mod 60000000
     in sign # zero_padded 2 hh @ '':'' @ zero_padded 2 mm @
        (if ss \<noteq> 0 then '':'' @ zero_padded 2 (ss div 1000000) else []) @
        (if ss mod 1000000 \<noteq> 0 then ''.'' @ zero_padded 6 (ss mod 1000000) else []))"

definition isoformat :: "datetime \<Rightarrow> string" where
  "isoformat d =
    zero_padded 4 (year d) @ ''-'' @ zero_padded 2 (month d) @ ''-'' @ zero_padded 2 (day d) @
    ''T'' @ zero_padded 2 (hour d) @ '':'' @ zero_padded 2 (minute d) @ '':'' @
    zero_padded 2 (second d) @
    (if microsecond d \<noteq> 0 then ''.'' @ zero_padded 6 (microsecond d) else []) @
    (case tzinfo d of None \<Rightarrow> [] | Some tz \<Rightarrow> format_offset (utcoffset tz))"

text \<open>The method call \<^verbatim>\<open>x.isoformat()\<close> on an arbitrary value.\<close>

fun py_isoformat :: "pyobj \<Rightarrow> error + string" where
  "py_isoformat (PyDatetime d) = Inr (isoformat d)"
| "py_isoformat x = Inl AttributeError"

section \<open>The query builder\<close>

fun test_datetime :: "pyobj \<Rightarrow> error + unit" where
  "test_datetime (PyDatetime dt) = (if tzinfo dt = None then Inl NoTimezoneInfo else Inr ())"
| "test_datetime dt = Inl NotDatetime"

text \<open>
  \<open>build_query_run\<close> executes the body of \<^verbatim>\<open>build_query\<close> and yields the local
  variable \<^verbatim>\<open>query\<close> as it stands when the body is left, together with the exception
  that left it, if any.
\<close>

definition build_query_run ::
  "string \<Rightarrow> (string \<times> string) list \<Rightarrow> pyobj \<Rightarrow> pyobj \<Rightarrow> string \<Rightarrow> string \<times> error option" where
  "build_query_run project fields start_time end_time precision =
    (let query = newline @ indent 12 @ ''from(bucket: '' @ dquote @ project @ dquote @ '')'' @
                 newline @ indent 8
     in case
         (if start_time \<noteq> PyNone \<and> end_time \<noteq> PyNone then
            and_then (test_datetime start_time) (\<lambda>_.
            and_then (test_datetime end_time) (\<lambda>_.
            and_then (py_isoformat start_time) (\<lambda>s.
            and_then (py_isoformat end_time) (\<lambda>e.
              Inr (query @ newline @ indent 16 @ ''|> range(start: '' @ s @ '', stop: '' @ e @
                   '')'' @ newline @ indent 12)))))
          else if start_time \<noteq> PyNone then
            and_then (test_datetime start_time) (\<lambda>_.
            and_then (py_isoformat start_time) (\<lambda>s.
              Inr (query @ newline @ indent 16 @ ''|> range(start: '' @ s @ '')'' @
                   newline @ indent 12)))
          else if end_time \<noteq> PyNone then
            and_then (test_datetime end_time) (\<lambda>_.
            and_then (py_isoformat end_time) (\<lambda>e.
              Inr (query @ newline @ indent 16 @ ''|> range(stop: '' @ e @ '')'' @
                   newline @ indent 12)))
          else Inr query)
        of Inl err \<Rightarrow> (query, Some err)
         | Inr query \<Rightarrow>
            (let query = fold (\<lambda>(f, v) query.
                           query @ newline @ indent 16 @ ''|> filter(fn: (r) => r['' @ dquote @
                           f @ dquote @ ''] == '' @ dquote @ v @ dquote @ '')'' @
                           newline @ indent 12) fields query;
                 query = query @ newline @ indent 12 @ ''|> aggregateWindow(every: '' @
                         precision @ '', fn: mean, createEmpty: true)'' @ newline @ indent 12 @
                         ''|> yield(name: '' @ dquote @ ''mean'' @ dquote @ '')'' @
                         newline @ indent 8
             in (query, None)))"

definition build_query ::
  "string \<Rightarrow> (string \<times> string) list \<Rightarrow> pyobj \<Rightarrow> pyobj \<Rightarrow> string \<Rightarrow> error + string" where
  "build_query project fields start_time end_time precision =
    (case build_query_run project fields start_time end_time precision of
       (query, None) \<Rightarrow> Inr query
     | (query, Some err) \<Rightarrow> Inl err)"

text \<open>
  Keyword arguments as \<^verbatim>\<open>get_points(**kwargs)\<close> and \<^verbatim>\<open>get_dataframe(**kwargs)\<close>
  forward them: an argument left out takes the default of \<^verbatim>\<open>build_query\<close>'s
  signature, and leaving out \<^verbatim>\<open>project\<close>, which has none, is a \<^verbatim>\<open>TypeError\<close>.
\<close>

datatype query_kwargs =
  Kwargs (kw_project: "string option") (kw_fields: "(string \<times> string) list option")
    (kw_start_time: "pyobj option") (kw_end_time: "pyobj option")
    (kw_precision: "string option")

definition build_query_kwargs :: "query_kwargs \<Rightarrow> error + string" where
  "build_query_kwargs kwargs =
    (case kw_project kwargs of
       None \<Rightarrow> Inl TypeError
     | Some project \<Rightarrow>
         build_query project
           (case kw_fields kwargs of None \<Rightarrow> [] | Some fields \<Rightarrow> fields)
           (case kw_start_time kwargs of None \<Rightarrow> PyNone | Some start_time \<Rightarrow> start_time)
           (case kw_end_time kwargs of None \<Rightarrow> PyNone | Some end_time \<Rightarrow> end_time)
           (case kw_precision kwargs of None \<Rightarrow> ''5m'' | Some precision \<Rightarrow> precision))"

section \<open>The store behind the client\<close>

text \<open>
  A frame is its row index and its columns in order, each column a name and one cell
  per row.
\<close>

datatype dataframe =
  DataFrame (index: "pyobj list") (columns: "(string \<times> pyobj list) list")

datatype write_record = Points "pyobj list" | Frame dataframe

text \<open>
  The calls that reach the store's client library. \<open>Write\<close> carries the keyword
  arguments \<^verbatim>\<open>bucket\<close>, \<^verbatim>\<open>record\<close>, \<^verbatim>\<open>data_frame_measurement_name\<close> and
  \<^verbatim>\<open>data_frame_tag_columns\<close> (the contents of the list at the time of the call).
\<close>

datatype call =
    NewInfluxDBClient string string string
  | GetWriteApi
  | GetQueryApi
  | GetBucketsApi
  | Health
  | CreateBucket string
  | Query string
  | QueryDataFrame string
  | Write string write_record "string option" "string list option"

text \<open>
  What the library answers is not code of this repository: \<open>reply\<close> and
  \<open>frame_reply\<close> give the answer (a value or an exception) to a call from the calls made
  before it, and every statement below holds for all such answers.
\<close>

datatype influx =
  Influx (reply: "call \<Rightarrow> call list \<Rightarrow> error + pyobj")
    (frame_reply: "string \<Rightarrow> call list \<Rightarrow> error + dataframe")

text \<open>
  The state the operations act on: the calls made to the library so far, and the
  contents of the Python list objects the caller and the client share, by address.
\<close>

type_synonym addr = nat

datatype world =
  World (calls: "call list") (heap: "addr \<Rightarrow> string list")

definition invoke :: "influx \<Rightarrow> call \<Rightarrow> world \<Rightarrow> (error + pyobj) \<times> world" where
  "invoke db c w = (reply db c (calls w), World (calls w @ [c]) (heap w))"

section \<open>The client\<close>

datatype influxdb_client =
  InfluxDBClient (client_url: string) (client_token: string) (client_org: string)

datatype write_options = SYNCHRONOUS

datatype write_api = WriteApi influxdb_client write_options

datatype query_api = QueryApi influxdb_client

datatype buckets_api = BucketsApi influxdb_client

datatype timeseries_client =
  TimeseriesClient (the_client: influxdb_client) (the_write_api: write_api)
    (the_query_api: query_api) (the_bucket_api: buckets_api)

text \<open>\<^verbatim>\<open>__init__\<close>; the default of \<^verbatim>\<open>organization\<close> is \<^verbatim>\<open>"GEWV"\<close>.\<close>

definition init ::
  "string option \<Rightarrow> int option \<Rightarrow> string \<Rightarrow> string option \<Rightarrow> influxdb_client option \<Rightarrow>
   world \<Rightarrow> (error + timeseries_client) \<times> world" where
  "init host port organization token client w =
    (case
       (case client of
          None \<Rightarrow>
            (case host of
               None \<Rightarrow> (Inl MissingHost, w)
             | Some h \<Rightarrow>
                 (case port of
                    None \<Rightarrow> (Inl MissingPort, w)
                  | Some p \<Rightarrow>
                      (case token of
                         None \<Rightarrow> (Inl MissingToken, w)
                       | Some t \<Rightarrow>
                           (Inr (InfluxDBClient (''https://'' @ h @ '':'' @ str_int p) t
                                   organization),
                            World (calls w @
                                   [NewInfluxDBClient (''https://'' @ h @ '':'' @ str_int p) t
                                      organization]) (heap w)))))
        | Some c \<Rightarrow> (Inr c, w))
     of (Inl err, w') \<Rightarrow> (Inl err, w')
      | (Inr c, w') \<Rightarrow>
          (Inr (TimeseriesClient c (WriteApi c SYNCHRONOUS) (QueryApi c) (BucketsApi c)),
           World (calls w' @ [GetWriteApi, GetQueryApi, GetBucketsApi]) (heap w')))"

definition health :: "influx \<Rightarrow> world \<Rightarrow> (error + pyobj) \<times> world" where
  "health db w = invoke db Health w"

definition connect :: "influx \<Rightarrow> world \<Rightarrow> (error + unit) \<times> world" where
  "connect db w =
    (case health db w of
       (Inl err, w') \<Rightarrow> (Inl err, w')
     | (Inr h, w') \<Rightarrow> if \<not> truthy h then (Inl NotReachable, w') else (Inr (), w'))"

definition create_bucket :: "influx \<Rightarrow> string \<Rightarrow> world \<Rightarrow> (error + unit) \<times> world" where
  "create_bucket db bucket w =
    (case invoke db (CreateBucket bucket) w of
       (Inr r, w') \<Rightarrow> (Inr (), w')
     | (Inl (ApiException status), w') \<Rightarrow>
         if status \<noteq> Some 422 then (Inl (ApiException status), w') else (Inr (), w')
     | (Inl err, w') \<Rightarrow> (Inl err, w'))"

text \<open>
  \<^verbatim>\<open>self.health\<close>, not called, is the method bound to the client.
\<close>

definition self_health :: pyobj where
  "self_health = PyBoundMethod ''health''"

definition get_points :: "influx \<Rightarrow> query_kwargs \<Rightarrow> world \<Rightarrow> (error + pyobj) \<times> world" where
  "get_points db kwargs w =
    (if \<not> truthy self_health then (Inl NotReachableOrUnhealthy, w)
     else case build_query_kwargs kwargs of
            Inl err \<Rightarrow> (Inl err, w)
          | Inr query \<Rightarrow> invoke db (Query query) w)"

definition get_dataframe ::
  "influx \<Rightarrow> query_kwargs \<Rightarrow> world \<Rightarrow> (error + dataframe) \<times> world" where
  "get_dataframe db kwargs w =
    (if \<not> truthy self_health then (Inl NotReachableOrUnhealthy, w)
     else case build_query_kwargs kwargs of
            Inl err \<Rightarrow> (Inl err, w)
          | Inr query \<Rightarrow>
              (frame_reply db query (calls w),
               World (calls w @ [QueryDataFrame query]) (heap w)))"

definition write_points ::
  "influx \<Rightarrow> string \<Rightarrow> pyobj list \<Rightarrow> world \<Rightarrow> (error + unit) \<times> world" where
  "write_points db project points w =
    (case invoke db (Write project (Points points) None None) w of
       (Inl err, w') \<Rightarrow> (Inl err, w')
     | (Inr r, w') \<Rightarrow> (Inr (), w'))"

text \<open>
  The frame operations \<^verbatim>\<open>write_a_dataframe\<close> uses: \<^verbatim>\<open>len(df)\<close>, the assignment
  \<^verbatim>\<open>df[name] = values\<close> (an existing column is replaced, a new one is added last) and
  \<^verbatim>\<open>pd.concat([a, b], axis=1)\<close> for two frames over one and the same index, the only
  case the source produces.
\<close>

definition len_frame :: "dataframe \<Rightarrow> nat" where
  "len_frame df = length (index df)"

definition setitem :: "dataframe \<Rightarrow> string \<Rightarrow> pyobj list \<Rightarrow> dataframe" where
  "setitem df name vals =
    (if name \<in> set (map fst (columns df))
     then DataFrame (index df)
            (map (\<lambda>(n, c). if n = name then (n, vals) else (n, c)) (columns df))
     else DataFrame (index df) (columns df @ [(name, vals)]))"

definition concat_axis1 :: "dataframe \<Rightarrow> dataframe \<Rightarrow> dataframe" where
  "concat_axis1 a b = DataFrame (index a) (columns a @ columns b)"

text \<open>
  The default of \<^verbatim>\<open>tag_columns\<close> is one list object, made when the method is defined
  and used by every call that leaves the argument out; it starts out empty.
\<close>

definition default_tag_columns :: addr where
  "default_tag_columns = 0"

definition write_frame ::
  "influx \<Rightarrow> string \<Rightarrow> dataframe \<Rightarrow> string \<Rightarrow> string list \<Rightarrow> world \<Rightarrow> (error + unit) \<times> world" where
  "write_frame db project df measurement_name tag_columns w =
    (case invoke db (Write project (Frame df) (Some measurement_name) (Some tag_columns)) w of
       (Inl err, w') \<Rightarrow> (Inl err, w')
     | (Inr r, w') \<Rightarrow> (Inr (), w'))"

definition write_a_dataframe ::
  "influx \<Rightarrow> string \<Rightarrow> string \<Rightarrow> dataframe \<Rightarrow> addr option \<Rightarrow> (string \<times> string) list option \<Rightarrow>
   world \<Rightarrow> (error + unit) \<times> world" where
  "write_a_dataframe db project measurement_name dataframe tag_columns additional_tags w =
    (let tag_columns = (case tag_columns of None \<Rightarrow> default_tag_columns | Some a \<Rightarrow> a)
     in case additional_tags of
          None \<Rightarrow> write_frame db project dataframe measurement_name (heap w tag_columns) w
        | Some tags \<Rightarrow>
            (let tags_dataframe = DataFrame (index dataframe) [];
                 (w, tags_dataframe) =
                   fold (\<lambda>(tag_name, tag) (w, tags_dataframe).
                           (World (calls w)
                              ((heap w)(tag_columns := heap w tag_columns @ [tag_name])),
                            setitem tags_dataframe tag_name
                              (replicate (len_frame dataframe) (PyStr tag))))
                     tags (w, tags_dataframe);
                 combined_frames = concat_axis1 dataframe tags_dataframe
             in write_frame db project combined_frames measurement_name
                  (heap w tag_columns) w))"

section \<open>Sample stores and worlds\<close>

text \<open>
  A store that answers a bucket creation with status 422 when the history holds a
  creation of the same bucket and accepts every other call, a store that answers every
  call with one exception, and the world before any call.
\<close>

definition bucket_store :: influx where
  "bucket_store =
    Influx (\<lambda>c history. case c of
                CreateBucket b \<Rightarrow>
                  if CreateBucket b \<in> set history then Inl (ApiException (Some 422))
                  else Inr PyNone
              | _ \<Rightarrow> Inr PyNone)
           (\<lambda>query history. Inr (DataFrame [] []))"

definition failing_store :: "error \<Rightarrow> influx" where
  "failing_store err = Influx (\<lambda>c history. Inl err) (\<lambda>query history. Inl err)"

definition empty_world :: world where
  "empty_world = World [] (\<lambda>a. [])"

section \<open>Construction\<close>

text \<open>
  Claim C6. Without an external client, \<^verbatim>\<open>__init__\<close> raises when the host, else the
  port, else the token is missing, and then the world is as before: no client and no
  delegate is made. With all three, or with an external client, it returns a client
  holding the three delegates derived from the connection.
\<close>

theorem init_requires_host_port_token:
  "init None port organization token None w = (Inl MissingHost, w)
   \<and> init (Some h) None organization token None w = (Inl MissingPort, w)
   \<and> init (Some h) (Some p) organization None None w = (Inl MissingToken, w)
   \<and> init (Some h) (Some p) organization (Some t) None w =
       (Inr (TimeseriesClient
               (InfluxDBClient (''https://'' @ h @ '':'' @ str_int p) t organization)
               (WriteApi (InfluxDBClient (''https://'' @ h @ '':'' @ str_int p) t organization)
                  SYNCHRONOUS)
               (QueryApi (InfluxDBClient (''https://'' @ h @ '':'' @ str_int p) t organization))
               (BucketsApi (InfluxDBClient (''https://'' @ h @ '':'' @ str_int p) t organization))),
        World (calls w @
               [NewInfluxDBClient (''https://'' @ h @ '':'' @ str_int p) t organization,
                GetWriteApi, GetQueryApi, GetBucketsApi]) (heap w))
   \<and> init host port organization token (Some c) w =
       (Inr (TimeseriesClient c (WriteApi c SYNCHRONOUS) (QueryApi c) (BucketsApi c)),
        World (calls w @ [GetWriteApi, GetQueryApi, GetBucketsApi]) (heap w))"
  by (simp add: init_def)

section \<open>Bucket creation\<close>

text \<open>
  Claim C7. \<^verbatim>\<open>create_bucket\<close> returns normally when the delegate raises an API error
  of status 422 and when the delegate succeeds; every other exception of the delegate
  reaches the caller as it is. Against a store that reports an existing bucket with
  422, creating a bucket twice therefore raises neither time.
\<close>

theorem create_bucket_swallows_conflict:
  "(reply db (CreateBucket bucket) (calls w) = Inl (ApiException (Some 422)) \<longrightarrow>
      create_bucket db bucket w = (Inr (), World (calls w @ [CreateBucket bucket]) (heap w)))
   \<and> (reply db (CreateBucket bucket) (calls w) = Inl err \<and> err \<noteq> ApiException (Some 422) \<longrightarrow>
      create_bucket db bucket w = (Inl err, World (calls w @ [CreateBucket bucket]) (heap w)))
   \<and> (reply db (CreateBucket bucket) (calls w) = Inr r \<longrightarrow>
      create_bucket db bucket w = (Inr (), World (calls w @ [CreateBucket bucket]) (heap w)))"
  by (cases err) (auto simp: create_bucket_def invoke_def)

theorem create_bucket_swallows_conflict_witness:
  "create_bucket bucket_store ''b'' empty_world = (Inr (), World [CreateBucket ''b''] (\<lambda>a. []))
   \<and> create_bucket bucket_store ''b'' (World [CreateBucket ''b''] (\<lambda>a. [])) =
       (Inr (), World [CreateBucket ''b'', CreateBucket ''b''] (\<lambda>a. []))
   \<and> create_bucket (failing_store (ApiException (Some 500))) ''b'' empty_world =
       (Inl (ApiException (Some 500)), World [CreateBucket ''b''] (\<lambda>a. []))
   \<and> create_bucket (failing_store (OtherError ''timeout'')) ''b'' empty_world =
       (Inl (OtherError ''timeout''), World [CreateBucket ''b''] (\<lambda>a. []))"
  using create_bucket_swallows_conflict [of bucket_store "''b''" empty_world _ PyNone]
    create_bucket_swallows_conflict [of bucket_store "''b''" "World [CreateBucket ''b''] (\<lambda>a. [])"]
    create_bucket_swallows_conflict [of "failing_store (ApiException (Some 500))" "''b''"
      empty_world "ApiException (Some 500)"]
    create_bucket_swallows_conflict [of "failing_store (OtherError ''timeout'')" "''b''"
      empty_world "OtherError ''timeout''"]
  by (simp add: bucket_store_def failing_store_def empty_world_def)

section \<open>The health guard of the read operations\<close>

text \<open>
  Claim C8. The guard of \<^verbatim>\<open>get_points\<close> and \<^verbatim>\<open>get_dataframe\<close> tests the bound method
  \<^verbatim>\<open>self.health\<close>, which is true, so neither operation takes the guard's branch: each
  builds the query and hands it to the query delegate, and no health probe is among
  the calls it makes.
\<close>

theorem read_operations_never_call_health:
  "truthy self_health
   \<and> get_points db kwargs w =
       (case build_query_kwargs kwargs of
          Inl err \<Rightarrow> (Inl err, w)
        | Inr query \<Rightarrow> (reply db (Query query) (calls w),
                          World (calls w @ [Query query]) (heap w)))
   \<and> get_dataframe db kwargs w =
       (case build_query_kwargs kwargs of
          Inl err \<Rightarrow> (Inl err, w)
        | Inr query \<Rightarrow> (frame_reply db query (calls w),
                          World (calls w @ [QueryDataFrame query]) (heap w)))
   \<and> Health \<notin> set (drop (length (calls w)) (calls (snd (get_points db kwargs w))))
   \<and> Health \<notin> set (drop (length (calls w)) (calls (snd (get_dataframe db kwargs w))))"
  by (simp add: get_points_def get_dataframe_def self_health_def invoke_def split: sum.splits)

end
